theory Spec2Isabelle
  imports Complex_Main "HOL-Library.Sublist"
begin

section \<open>Conventions of the embedding\<close>

text \<open>
  The two modules embedded here are \<^verbatim>\<open>ml/patientDonorMatching.py\<close> (class
  \<^verbatim>\<open>PatientDonorMatching\<close>) and \<^verbatim>\<open>services/emergencyNotificationService.py\<close>
  (class \<^verbatim>\<open>EmergencyNotificationService\<close>).

  \<^item> Python floats are idealised as \<^typ>\<open>real\<close>: every product and comparison is exact.
  \<^item> A point in time is an \<^typ>\<open>int\<close>, the number of microseconds since the epoch; a
    difference of two of them is a \<^verbatim>\<open>timedelta\<close>. \<^verbatim>\<open>datetime.now()\<close> is the
    explicit argument \<open>now\<close> of every function that calls it.
  \<^item> A dict or a DataFrame row is a record. A key that the source reads by indexing
    (\<^verbatim>\<open>d['k']\<close>) is a plain field; a key that it reads with \<^verbatim>\<open>d.get('k', default)\<close> is a
    field of option type, \<open>None\<close> standing for the absent key. Fields carry the name of
    the key behind a prefix that names the record.
  \<^item> \<^verbatim>\<open>geopy.distance.geodesic\<close> is not code of this repository: it is a parameter
    \<open>geo\<close> of the functions that call it, with the three outcomes the callers tell apart.
\<close>

type_synonym time = int

definition ticks_per_second :: int where
  "ticks_per_second = 1000000"

definition total_seconds :: "int \<Rightarrow> real" where
  "total_seconds delta = real_of_int delta / real_of_int ticks_per_second"

definition days :: "int \<Rightarrow> int" where
  \<comment> \<open>\<^verbatim>\<open>timedelta.days\<close>: the floor of the difference in days\<close>
  "days delta = delta div (86400 * ticks_per_second)"

definition dict_get :: "'a option \<Rightarrow> 'a \<Rightarrow> 'a" where
  \<comment> \<open>\<^verbatim>\<open>d.get(k, default)\<close>, on the looked-up entry\<close>
  "dict_get entry dflt = (case entry of None \<Rightarrow> dflt | Some v \<Rightarrow> v)"

datatype geo_outcome = Km real | ImportFails | GeoRaises

type_synonym geodesic = "real \<times> real \<Rightarrow> real \<times> real \<Rightarrow> geo_outcome"

definition planar_distance :: "real \<Rightarrow> real \<Rightarrow> real \<Rightarrow> real \<Rightarrow> real" where
  \<comment> \<open>\<^verbatim>\<open>np.sqrt((lat1 - lat2)**2 + (lon1 - lon2)**2) * 111\<close>\<close>
  "planar_distance lat1 lon1 lat2 lon2 = sqrt ((lat1 - lat2)\<^sup>2 + (lon1 - lon2)\<^sup>2) * 111"

definition py_round2 :: "real \<Rightarrow> real" where
  \<comment> \<open>\<^verbatim>\<open>round(x, 2)\<close>: to the nearest hundredth, a tie going to the even one\<close>
  "py_round2 x =
     (let y = x * 100; f = \<lfloor>y\<rfloor>; r = y - real_of_int f
      in real_of_int (if r < 1 / 2 then f
                      else if 1 / 2 < r then f + 1
                      else if even f then f else f + 1) / 100)"

definition py_slice_to :: "'a list \<Rightarrow> int \<Rightarrow> 'a list" where
  \<comment> \<open>\<^verbatim>\<open>xs[:n]\<close>: a negative \<open>n\<close> counts from the end\<close>
  "py_slice_to xs n =
     (if 0 \<le> n then take (nat n) xs else take (nat (int (length xs) + n)) xs)"

definition py_sort_reverse :: "('a \<Rightarrow> real) \<Rightarrow> 'a list \<Rightarrow> 'a list" where
  \<comment> \<open>\<^verbatim>\<open>xs.sort(key=k, reverse=True)\<close>: descending, and stable as Python's sort is\<close>
  "py_sort_reverse k xs = sort_key (\<lambda>x. - k x) xs"

section \<open>patientDonorMatching.py\<close>

subsection \<open>Data\<close>

record patient =
  p_blood_type_required :: string
  p_urgency_level :: "string option"
  p_latitude :: "real option"
  p_longitude :: "real option"

datatype donation_date = Unparseable | Timestamp time

text \<open>
  The donor dict of \<^verbatim>\<open>calculate_matching_score\<close>. \<open>d_last_donation_date\<close> is \<open>None\<close>
  when the key is absent or its value is falsy; otherwise it holds what
  \<^verbatim>\<open>pd.to_datetime\<close> makes of the value, \<open>Unparseable\<close> when the \<^verbatim>\<open>try\<close> block raises.
\<close>

record donor =
  d_blood_type :: string
  d_predicted_availability_score :: "real option"
  d_health_conditions :: "string option"
  d_responsiveness_score :: "real option"
  d_age :: "int option"
  d_last_donation_date :: "donation_date option"

definition blood_compatibility :: "string \<Rightarrow> string list option" where
  "blood_compatibility = map_of
     [(''O-'', [''O-'']),
      (''O+'', [''O+'', ''O-'']),
      (''A-'', [''A-'', ''O-'']),
      (''A+'', [''A+'', ''A-'', ''O+'', ''O-'']),
      (''B-'', [''B-'', ''O-'']),
      (''B+'', [''B+'', ''B-'', ''O+'', ''O-'']),
      (''AB-'', [''AB-'', ''A-'', ''B-'', ''O-'']),
      (''AB+'', [''AB+'', ''AB-'', ''A+'', ''A-'', ''B+'', ''B-'', ''O+'', ''O-''])]"

definition urgency_weights :: "string \<Rightarrow> real option" where
  "urgency_weights = map_of
     [(''LOW'', 1), (''MEDIUM'', 3 / 2), (''HIGH'', 2), (''CRITICAL'', 3)]"

definition distance_weights :: "string \<Rightarrow> real option" where
  "distance_weights = map_of
     [(''same_city'', 1), (''nearby_city'', 4 / 5), (''far_city'', 3 / 5)]"

definition max_distance :: real where
  "max_distance = 100"

subsection \<open>Distance, proximity, compatibility\<close>

definition calculate_distance :: "geodesic \<Rightarrow> real \<Rightarrow> real \<Rightarrow> real \<Rightarrow> real \<Rightarrow> real" where
  \<comment> \<open>the bare \<^verbatim>\<open>except:\<close> sends every failure of geopy to the planar formula\<close>
  "calculate_distance geo lat1 lon1 lat2 lon2 =
     (case geo (lat1, lon1) (lat2, lon2) of
        Km d \<Rightarrow> d
      | _ \<Rightarrow> planar_distance lat1 lon1 lat2 lon2)"

definition get_location_proximity :: "real \<Rightarrow> string" where
  "get_location_proximity distance =
     (if distance \<le> 10 then ''same_city''
      else if distance \<le> 50 then ''nearby_city''
      else ''far_city'')"

definition check_blood_compatibility :: "string \<Rightarrow> string \<Rightarrow> bool" where
  "check_blood_compatibility patient_blood_type donor_blood_type =
     (donor_blood_type \<in> set (dict_get (blood_compatibility patient_blood_type) []))"

subsection \<open>The score\<close>

definition recency_factor :: "time \<Rightarrow> donation_date option \<Rightarrow> real \<Rightarrow> real" where
  \<comment> \<open>the block under \<^verbatim>\<open># Recent donation factor\<close>\<close>
  "recency_factor now last_donation score =
     (case last_donation of
        None \<Rightarrow> score
      | Some Unparseable \<Rightarrow> score
      | Some (Timestamp last_donation_date) \<Rightarrow>
          (let days_since = days (now - last_donation_date)
           in if 56 \<le> days_since then score * (6 / 5)
              else if days_since < 30 then score * (3 / 10)
              else score))"

definition calculate_matching_score ::
  "time \<Rightarrow> patient \<Rightarrow> donor \<Rightarrow> real \<Rightarrow> real \<Rightarrow> real" where
  "calculate_matching_score now patient donor distance predicted_availability =
     (if \<not> check_blood_compatibility (p_blood_type_required patient) (d_blood_type donor)
      then 0
      else
        let score = 0 + 100;
            urgency = dict_get (p_urgency_level patient) ''MEDIUM'';
            urgency_multiplier = dict_get (urgency_weights urgency) 1;
            score = score * urgency_multiplier;
            proximity = get_location_proximity distance;
            distance_weight = dict_get (distance_weights proximity) (1 / 2);
            score = score * distance_weight;
            availability_score =
              dict_get (d_predicted_availability_score donor) predicted_availability;
            score = score * (1 / 2 + 1 / 2 * availability_score);
            score = (if d_health_conditions donor = Some ''None''
                     then score * (6 / 5) else score * (4 / 5));
            responsiveness = dict_get (d_responsiveness_score donor) (1 / 2);
            score = score * (4 / 5 + 2 / 5 * responsiveness);
            donor_age = dict_get (d_age donor) 35;
            score = (if 18 \<le> donor_age \<and> donor_age \<le> 45 then score * (11 / 10)
                     else if 65 < donor_age then score * (9 / 10)
                     else score);
            score = recency_factor now (d_last_donation_date donor) score
        in max 0 score)"

text \<open>
  The product that the score has reached when the recency block starts. It is a device of
  the proofs: \<open>calculate_matching_score\<close> above is the function of the source.
\<close>

definition score_before_recency :: "patient \<Rightarrow> donor \<Rightarrow> real \<Rightarrow> real \<Rightarrow> real" where
  "score_before_recency patient donor distance predicted_availability =
     100 * dict_get (urgency_weights (dict_get (p_urgency_level patient) ''MEDIUM'')) 1
         * dict_get (distance_weights (get_location_proximity distance)) (1 / 2)
         * (1 / 2 + 1 / 2 * dict_get (d_predicted_availability_score donor) predicted_availability)
         * (if d_health_conditions donor = Some ''None'' then 6 / 5 else 4 / 5)
         * (4 / 5 + 2 / 5 * dict_get (d_responsiveness_score donor) (1 / 2))
         * (let donor_age = dict_get (d_age donor) 35
            in if 18 \<le> donor_age \<and> donor_age \<le> 45 then 11 / 10
               else if 65 < donor_age then 9 / 10 else 1)"

subsection \<open>Ranking\<close>

text \<open>A row of \<^verbatim>\<open>donors_df\<close>: the columns that the two modules read.\<close>

record donor_row =
  r_donor_id :: string
  r_name :: string
  r_blood_type :: string
  r_age :: int
  r_gender :: string
  r_location :: string
  r_availability_status :: string
  r_health_conditions :: string
  r_latitude :: "real option"
  r_longitude :: "real option"
  r_predicted_availability_score :: "real option"
  r_responsiveness_score :: "real option"
  r_last_donation_date :: "donation_date option"
  r_contact_number :: "string option"

definition to_dict :: "donor_row \<Rightarrow> donor" where
  \<comment> \<open>\<^verbatim>\<open>donor.to_dict()\<close>, kept to the keys that the score reads\<close>
  "to_dict row =
     \<lparr>d_blood_type = r_blood_type row,
      d_predicted_availability_score = r_predicted_availability_score row,
      d_health_conditions = Some (r_health_conditions row),
      d_responsiveness_score = r_responsiveness_score row,
      d_age = Some (r_age row),
      d_last_donation_date = r_last_donation_date row\<rparr>"

text \<open>
  A match dict. The keys that only \<^verbatim>\<open>find_matches\<close> writes are of option type: the
  matches of the notification service's own matcher do not have them.
\<close>

record match =
  m_donor_id :: string
  m_donor_name :: string
  m_blood_type :: string
  m_age :: "int option"
  m_gender :: "string option"
  m_location :: string
  m_distance_km :: real
  m_matching_score :: real
  m_predicted_availability :: "real option"
  m_responsiveness_score :: real
  m_last_donation_date :: "donation_date option"
  m_health_conditions :: "string option"
  m_contact_number :: "string option"
  m_urgency_level :: "string option"

definition match_donor :: "geodesic \<Rightarrow> time \<Rightarrow> patient \<Rightarrow> real \<Rightarrow> donor_row \<Rightarrow> match option" where
  \<comment> \<open>the body of the loop of \<^verbatim>\<open>find_matches\<close>: \<open>None\<close> when nothing is appended\<close>
  "match_donor geo now patient min_score donor =
     (let distance = calculate_distance geo
                       (dict_get (p_latitude patient) 0) (dict_get (p_longitude patient) 0)
                       (dict_get (r_latitude donor) 0) (dict_get (r_longitude donor) 0)
      in if max_distance < distance then None
         else
           let score = calculate_matching_score now patient (to_dict donor) distance
                         (dict_get (r_predicted_availability_score donor) (1 / 2))
           in if min_score \<le> score
              then Some \<lparr>m_donor_id = r_donor_id donor,
                         m_donor_name = r_name donor,
                         m_blood_type = r_blood_type donor,
                         m_age = Some (r_age donor),
                         m_gender = Some (r_gender donor),
                         m_location = r_location donor,
                         m_distance_km = py_round2 distance,
                         m_matching_score = py_round2 score,
                         m_predicted_availability =
                           Some (dict_get (r_predicted_availability_score donor) (1 / 2)),
                         m_responsiveness_score = dict_get (r_responsiveness_score donor) (1 / 2),
                         m_last_donation_date = r_last_donation_date donor,
                         m_health_conditions = Some (r_health_conditions donor),
                         m_contact_number = r_contact_number donor,
                         m_urgency_level = Some (dict_get (p_urgency_level patient) ''MEDIUM'')\<rparr>
              else None)"

primrec scan_donors ::
  "geodesic \<Rightarrow> time \<Rightarrow> patient \<Rightarrow> real \<Rightarrow> donor_row list \<Rightarrow> match list" where
  "scan_donors geo now patient min_score [] = []"
| "scan_donors geo now patient min_score (donor # rest) =
     (case match_donor geo now patient min_score donor of
        None \<Rightarrow> scan_donors geo now patient min_score rest
      | Some m \<Rightarrow> m # scan_donors geo now patient min_score rest)"

definition available :: "donor_row \<Rightarrow> bool" where
  \<comment> \<open>the filter \<^verbatim>\<open>available_donors\<close> of \<^verbatim>\<open>find_matches\<close>\<close>
  "available donor =
     (r_availability_status donor = ''Available''
      \<and> r_health_conditions donor \<noteq> ''HIV/AIDS''
      \<and> r_health_conditions donor \<noteq> ''Hepatitis'')"

definition find_matches ::
  "geodesic \<Rightarrow> time \<Rightarrow> patient \<Rightarrow> donor_row list \<Rightarrow> int \<Rightarrow> real \<Rightarrow> match list" where
  "find_matches geo now patient donors_df max_matches min_score =
     (let available_donors = filter available donors_df
      in if length available_donors = 0 then []
         else
           let matches = scan_donors geo now patient min_score available_donors;
               matches = py_sort_reverse m_matching_score matches
           in py_slice_to matches max_matches)"

record emergency_request =
  e_blood_type_needed :: string
  e_urgency_level :: string
  e_latitude :: "real option"
  e_longitude :: "real option"
  e_location :: string

record recommendations =
  rec_immediate_contact :: "match list"
  rec_high_priority :: "match list"
  rec_backup_options :: "match list"
  rec_total_matches :: nat
  rec_blood_type_needed :: string
  rec_urgency_level :: string
  rec_location :: string
  rec_timestamp :: time

definition patient_of_request :: "emergency_request \<Rightarrow> patient" where
  \<comment> \<open>the dict \<^verbatim>\<open>patient\<close> of \<^verbatim>\<open>find_emergency_matches\<close>; its key \<^verbatim>\<open>location\<close> is read
      by no function\<close>
  "patient_of_request emergency_request =
     \<lparr>p_blood_type_required = e_blood_type_needed emergency_request,
      p_urgency_level = Some (e_urgency_level emergency_request),
      p_latitude = Some (dict_get (e_latitude emergency_request) 0),
      p_longitude = Some (dict_get (e_longitude emergency_request) 0)\<rparr>"

definition find_emergency_matches ::
  "geodesic \<Rightarrow> time \<Rightarrow> emergency_request \<Rightarrow> donor_row list \<Rightarrow> int \<Rightarrow> recommendations" where
  "find_emergency_matches geo now emergency_request donors_df max_matches =
     (let patient = patient_of_request emergency_request;
          matches = find_matches geo now patient donors_df max_matches 30;
          critical_matches =
            filter (\<lambda>m. m_urgency_level m = Some ''CRITICAL'' \<and> m_distance_km m \<le> 25) matches;
          high_priority_matches =
            filter (\<lambda>m. 150 \<le> m_matching_score m \<and> m_distance_km m \<le> 50) matches;
          standard_matches = filter (\<lambda>m. 100 \<le> m_matching_score m) matches
      in \<lparr>rec_immediate_contact = py_slice_to critical_matches 3,
          rec_high_priority = py_slice_to high_priority_matches 5,
          rec_backup_options = py_slice_to standard_matches 10,
          rec_total_matches = length matches,
          rec_blood_type_needed = e_blood_type_needed emergency_request,
          rec_urgency_level = e_urgency_level emergency_request,
          rec_location = e_location emergency_request,
          rec_timestamp = now\<rparr>)"

section \<open>emergencyNotificationService.py\<close>

subsection \<open>Data\<close>

record emergency_alert =
  a_alert_id :: string
  a_request_id :: string
  a_blood_type_needed :: string
  a_urgency_level :: string
  a_location :: string
  a_latitude :: real
  a_longitude :: real
  a_units_required :: int
  a_hospital_name :: string
  a_contact_person :: string
  a_contact_number :: string
  a_timestamp :: time
  a_status :: string
  a_matched_donors :: "match list option"
  a_notification_sent :: bool

text \<open>
  A row of \<^verbatim>\<open>emergency_requests_df\<close>. \<open>q_timestamp\<close> is the point in time that
  \<^verbatim>\<open>pd.to_datetime\<close> reads from the column.
\<close>

record request_row =
  q_request_id :: string
  q_timestamp :: time
  q_urgency_level :: "string option"
  q_blood_type_needed :: string
  q_location :: string
  q_latitude :: "real option"
  q_longitude :: "real option"
  q_units_required :: "int option"
  q_hospital_name :: "string option"
  q_contact_person :: "string option"
  q_contact_number :: "string option"

record config =
  c_check_interval_seconds :: int
  c_max_alerts_per_hour :: int
  c_notification_channels :: "string list"
  c_max_distance_km :: real
  c_min_matching_score :: real
  c_alert_expiry_hours :: real
  c_batch_notification_size :: int

record history_entry =
  h_alert_id :: string
  h_timestamp :: time
  h_status :: string
  h_matched_donors_count :: nat

datatype exn = ValueError | ZeroDivisionError

text \<open>
  What a channel handler does when \<^verbatim>\<open>_send_notification_async\<close> calls and awaits it:
  a coroutine that returns a flag, a plain function that returns a flag (the \<^verbatim>\<open>await\<close>
  of a \<^verbatim>\<open>bool\<close> then raises \<^verbatim>\<open>TypeError\<close>), or a handler that raises.
\<close>

datatype handler_outcome = Awaited bool | Plain bool | Raises

type_synonym handler = "emergency_alert \<Rightarrow> match list \<Rightarrow> handler_outcome"

datatype log_event =
    NoMatchedDonors string
  | NotificationSent string bool
  | NotificationError string
  | NotificationsSent string

text \<open>
  The service object. \<open>s_active_alerts\<close> is the dict \<^verbatim>\<open>active_alerts\<close> as the list of
  its items in insertion order. \<open>s_matching_system\<close> is \<open>None\<close> or the method
  \<^verbatim>\<open>find_emergency_matches\<close> of the attached object, \<open>None\<close> as its result when the call
  raises.
\<close>

record service =
  s_config :: config
  s_active_alerts :: "(string \<times> emergency_alert) list"
  s_alert_history :: "history_entry list"
  s_matching_system :: "(emergency_request \<Rightarrow> donor_row list \<Rightarrow> recommendations option) option"
  s_notification_channels :: "string \<Rightarrow> handler option"

definition get_default_config :: config where
  "get_default_config =
     \<lparr>c_check_interval_seconds = 30,
      c_max_alerts_per_hour = 50,
      c_notification_channels = [''email'', ''sms''],
      c_max_distance_km = 100,
      c_min_matching_score = 50,
      c_alert_expiry_hours = 24,
      c_batch_notification_size = 10\<rparr>"

definition send_email_notification :: handler where
  "send_email_notification alert matched_donors = Plain True"

definition send_sms_notification :: handler where
  "send_sms_notification alert matched_donors = Plain True"

definition send_whatsapp_notification :: handler where
  "send_whatsapp_notification alert matched_donors = Plain True"

definition send_push_notification :: handler where
  "send_push_notification alert matched_donors = Plain True"

definition init :: "config option \<Rightarrow> service" where
  \<comment> \<open>\<^verbatim>\<open>__init__\<close>\<close>
  "init cfg =
     \<lparr>s_config = dict_get cfg get_default_config,
      s_active_alerts = [],
      s_alert_history = [],
      s_matching_system = None,
      s_notification_channels = map_of
        [(''email'', send_email_notification),
         (''sms'', send_sms_notification),
         (''whatsapp'', send_whatsapp_notification),
         (''push'', send_push_notification)]\<rparr>"

subsection \<open>Detection\<close>

fun decimal :: "nat \<Rightarrow> string" where
  "decimal n =
     (if n < 10 then [char_of (48 + n)]
      else decimal (n div 10) @ [char_of (48 + n mod 10)])"

declare decimal.simps [simp del]

definition format_alert_id :: "nat \<Rightarrow> string" where
  \<comment> \<open>\<^verbatim>\<open>f"ALERT_{n:06d}"\<close>\<close>
  "format_alert_id n =
     ''ALERT_'' @ replicate (6 - length (decimal n)) (CHR ''0'') @ decimal n"

definition new_alert :: "nat \<Rightarrow> request_row \<Rightarrow> string \<Rightarrow> emergency_alert" where
  \<comment> \<open>the constructor call of \<^verbatim>\<open>detect_emergency_requests\<close>, with the dataclass defaults\<close>
  "new_alert n request urgency =
     \<lparr>a_alert_id = format_alert_id (n + 1),
      a_request_id = q_request_id request,
      a_blood_type_needed = q_blood_type_needed request,
      a_urgency_level = urgency,
      a_location = q_location request,
      a_latitude = dict_get (q_latitude request) 0,
      a_longitude = dict_get (q_longitude request) 0,
      a_units_required = dict_get (q_units_required request) 1,
      a_hospital_name = dict_get (q_hospital_name request) ''Unknown'',
      a_contact_person = dict_get (q_contact_person request) ''Unknown'',
      a_contact_number = dict_get (q_contact_number request) ''Unknown'',
      a_timestamp = q_timestamp request,
      a_status = ''active'',
      a_matched_donors = None,
      a_notification_sent = False\<rparr>"

text \<open>
  The loop of \<^verbatim>\<open>detect_emergency_requests\<close>: the service, the rows still to read, and the
  alerts created so far.
\<close>

fun detect_loop ::
  "time \<Rightarrow> service \<Rightarrow> request_row list \<Rightarrow> emergency_alert list
     \<Rightarrow> service \<times> emergency_alert list" where
  "detect_loop current_time s [] new_alerts = (s, new_alerts)"
| "detect_loop current_time s (request # rest) new_alerts =
     (let request_id = q_request_id request
      in if request_id \<in> set (map fst (s_active_alerts s))
         then detect_loop current_time s rest new_alerts
         else
           let request_time = q_timestamp request;
               time_diff = current_time - request_time
           in if 3600 < total_seconds time_diff
              then detect_loop current_time s rest new_alerts
              else
                let urgency = dict_get (q_urgency_level request) ''MEDIUM''
                in if urgency \<in> set [''HIGH'', ''CRITICAL'']
                   then
                     let alert = new_alert (length (s_active_alerts s)) request urgency
                     in detect_loop current_time
                          (s\<lparr>s_active_alerts := s_active_alerts s @ [(request_id, alert)]\<rparr>)
                          rest (new_alerts @ [alert])
                   else detect_loop current_time s rest new_alerts)"

definition detect_emergency_requests ::
  "time \<Rightarrow> service \<Rightarrow> request_row list \<Rightarrow> service \<times> emergency_alert list" where
  "detect_emergency_requests current_time s emergency_requests_df =
     detect_loop current_time s emergency_requests_df []"

text \<open>A run of detection passes, each at its own time on its own frame of requests.\<close>

fun detect_passes ::
  "service \<Rightarrow> (time \<times> request_row list) list \<Rightarrow> service \<times> emergency_alert list" where
  "detect_passes s [] = (s, [])"
| "detect_passes s ((current_time, emergency_requests_df) # rest) =
     (case detect_emergency_requests current_time s emergency_requests_df of
        (s1, new_alerts) \<Rightarrow>
          (case detect_passes s1 rest of
             (s2, later_alerts) \<Rightarrow> (s2, new_alerts @ later_alerts)))"

subsection \<open>Matching inside the service\<close>

definition service_calculate_distance ::
  "geodesic \<Rightarrow> real \<Rightarrow> real \<Rightarrow> real \<Rightarrow> real \<Rightarrow> exn + real" where
  \<comment> \<open>\<^verbatim>\<open>_calculate_distance\<close>: only \<^verbatim>\<open>ImportError\<close> is caught\<close>
  "service_calculate_distance geo lat1 lon1 lat2 lon2 =
     (case geo (lat1, lon1) (lat2, lon2) of
        Km d \<Rightarrow> Inr d
      | ImportFails \<Rightarrow> Inr (planar_distance lat1 lon1 lat2 lon2)
      | GeoRaises \<Rightarrow> Inl ValueError)"

definition simple_match :: "donor_row \<Rightarrow> real \<Rightarrow> real \<Rightarrow> match" where
  \<comment> \<open>the dict \<^verbatim>\<open>match\<close> of \<^verbatim>\<open>_simple_donor_matching\<close>\<close>
  "simple_match donor distance score =
     \<lparr>m_donor_id = r_donor_id donor,
      m_donor_name = r_name donor,
      m_blood_type = r_blood_type donor,
      m_age = None,
      m_gender = None,
      m_location = r_location donor,
      m_distance_km = py_round2 distance,
      m_matching_score = py_round2 score,
      m_predicted_availability = None,
      m_responsiveness_score = dict_get (r_responsiveness_score donor) (1 / 2),
      m_last_donation_date = None,
      m_health_conditions = None,
      m_contact_number = Some (dict_get (r_contact_number donor) ''Unknown''),
      m_urgency_level = None\<rparr>"

fun simple_scan ::
  "geodesic \<Rightarrow> config \<Rightarrow> emergency_alert \<Rightarrow> donor_row list \<Rightarrow> exn + match list" where
  "simple_scan geo cfg alert [] = Inr []"
| "simple_scan geo cfg alert (donor # rest) =
     (case service_calculate_distance geo (a_latitude alert) (a_longitude alert)
             (dict_get (r_latitude donor) 0) (dict_get (r_longitude donor) 0) of
        Inl e \<Rightarrow> Inl e
      | Inr distance \<Rightarrow>
          if distance \<le> c_max_distance_km cfg
          then
            if c_max_distance_km cfg = 0 then Inl ZeroDivisionError
            else
              let score = 100 - (distance / c_max_distance_km cfg) * 50
              in (case simple_scan geo cfg alert rest of
                    Inl e \<Rightarrow> Inl e
                  | Inr matches \<Rightarrow> Inr (simple_match donor distance score # matches))
          else simple_scan geo cfg alert rest)"

definition compatible_donor :: "emergency_alert \<Rightarrow> donor_row \<Rightarrow> bool" where
  \<comment> \<open>the filter \<^verbatim>\<open>compatible_donors\<close> of \<^verbatim>\<open>_simple_donor_matching\<close>\<close>
  "compatible_donor alert donor =
     (r_blood_type donor = a_blood_type_needed alert
      \<and> r_availability_status donor = ''Available''
      \<and> r_health_conditions donor = ''None'')"

definition simple_donor_matching ::
  "geodesic \<Rightarrow> service \<Rightarrow> emergency_alert \<Rightarrow> donor_row list \<Rightarrow> exn + match list" where
  "simple_donor_matching geo s alert donors_df =
     (let compatible_donors = filter (compatible_donor alert) donors_df
      in if length compatible_donors = 0 then Inr []
         else
           (case simple_scan geo (s_config s) alert compatible_donors of
              Inl e \<Rightarrow> Inl e
            | Inr matches \<Rightarrow>
                Inr (py_slice_to (py_sort_reverse m_matching_score matches) 10)))"

definition find_matching_donors_for_alert ::
  "geodesic \<Rightarrow> service \<Rightarrow> emergency_alert \<Rightarrow> donor_row list \<Rightarrow> exn + match list" where
  "find_matching_donors_for_alert geo s alert donors_df =
     (case s_matching_system s of
        None \<Rightarrow> simple_donor_matching geo s alert donors_df
      | Some matching_system \<Rightarrow>
          (case matching_system
                  \<lparr>e_blood_type_needed = a_blood_type_needed alert,
                   e_urgency_level = a_urgency_level alert,
                   e_latitude = Some (a_latitude alert),
                   e_longitude = Some (a_longitude alert),
                   e_location = a_location alert\<rparr> donors_df of
             None \<Rightarrow> simple_donor_matching geo s alert donors_df
           | Some matches \<Rightarrow> Inr (rec_immediate_contact matches @ rec_high_priority matches)))"

subsection \<open>Dispatch\<close>

definition send_notification_async ::
  "service \<Rightarrow> string \<Rightarrow> emergency_alert \<Rightarrow> match list \<Rightarrow> log_event" where
  \<comment> \<open>\<^verbatim>\<open>_send_notification_async\<close>: what it logs; every exception ends in its \<^verbatim>\<open>except\<close>\<close>
  "send_notification_async s channel alert matched_donors =
     (case s_notification_channels s channel of
        None \<Rightarrow> NotificationError channel
      | Some h \<Rightarrow>
          (case h alert matched_donors of
             Awaited result \<Rightarrow> NotificationSent channel result
           | Plain result \<Rightarrow> NotificationError channel
           | Raises \<Rightarrow> NotificationError channel))"

text \<open>
  \<^verbatim>\<open>send_emergency_notifications\<close>: the alert after the call and what the call logs. One
  task per configured channel that the service knows; \<^verbatim>\<open>asyncio.gather\<close> waits for all
  of them, and their log lines are given in the order in which the tasks are created.
\<close>

definition send_emergency_notifications ::
  "service \<Rightarrow> emergency_alert \<Rightarrow> match list \<Rightarrow> emergency_alert \<times> log_event list" where
  "send_emergency_notifications s alert matched_donors =
     (if matched_donors = [] then (alert, [NoMatchedDonors (a_alert_id alert)])
      else
        let notification_tasks =
              filter (\<lambda>channel. case s_notification_channels s channel of
                                   None \<Rightarrow> False | Some h \<Rightarrow> True)
                (c_notification_channels (s_config s));
            logged = map (\<lambda>channel. send_notification_async s channel alert matched_donors)
                       notification_tasks
        in (alert\<lparr>a_notification_sent := True, a_matched_donors := Some matched_donors\<rparr>,
            logged @ [NotificationsSent (a_alert_id alert)]))"

subsection \<open>The processing pass and the cleanup\<close>

text \<open>
  The alerts of \<^verbatim>\<open>new_alerts\<close> are the objects held by \<^verbatim>\<open>active_alerts\<close>: an assignment
  to a field of one of them is written back under its request id.
\<close>

definition store_alert :: "emergency_alert \<Rightarrow> service \<Rightarrow> service" where
  "store_alert alert s =
     s\<lparr>s_active_alerts :=
         map (\<lambda>(k, a). if k = a_request_id alert then (k, alert) else (k, a))
           (s_active_alerts s)\<rparr>"

definition process_alert :: "geodesic \<Rightarrow> donor_row list \<Rightarrow> service \<Rightarrow> emergency_alert \<Rightarrow> service" where
  \<comment> \<open>the body of the loop of \<^verbatim>\<open>process_emergency_requests\<close>\<close>
  "process_alert geo donors_df s alert =
     (case find_matching_donors_for_alert geo s alert donors_df of
        Inl e \<Rightarrow> store_alert (alert\<lparr>a_status := ''error''\<rparr>) s
      | Inr matched_donors \<Rightarrow>
          let alert = (if matched_donors \<noteq> []
                       then fst (send_emergency_notifications s alert matched_donors)
                       else alert);
              s = store_alert alert s
          in s\<lparr>s_alert_history := s_alert_history s @
                 [\<lparr>h_alert_id = a_alert_id alert,
                   h_timestamp = a_timestamp alert,
                   h_status = ''processed'',
                   h_matched_donors_count =
                     (if matched_donors \<noteq> [] then length matched_donors else 0)\<rparr>]\<rparr>)"

definition cleanup_expired_alerts :: "time \<Rightarrow> service \<Rightarrow> service" where
  "cleanup_expired_alerts current_time s =
     (let expired_alerts =
            map fst
              (filter (\<lambda>(request_id, alert).
                         c_alert_expiry_hours (s_config s) * 3600
                           < total_seconds (current_time - a_timestamp alert))
                 (s_active_alerts s))
      in s\<lparr>s_active_alerts :=
             foldl (\<lambda>items request_id. filter (\<lambda>(k, a). k \<noteq> request_id) items)
               (s_active_alerts s) expired_alerts\<rparr>)"

text \<open>
  \<^verbatim>\<open>process_emergency_requests\<close>. The two calls of \<^verbatim>\<open>datetime.now()\<close>, in the detection
  and in the cleanup, are the arguments \<open>detect_time\<close> and \<open>cleanup_time\<close>.
\<close>

definition process_emergency_requests ::
  "geodesic \<Rightarrow> time \<Rightarrow> time \<Rightarrow> service \<Rightarrow> request_row list \<Rightarrow> donor_row list \<Rightarrow> service" where
  "process_emergency_requests geo detect_time cleanup_time s emergency_requests_df donors_df =
     (case detect_emergency_requests detect_time s emergency_requests_df of
        (s, new_alerts) \<Rightarrow>
          if new_alerts = [] then s
          else cleanup_expired_alerts cleanup_time
                 (foldl (process_alert geo donors_df) s new_alerts))"

section \<open>Concrete inputs\<close>

text \<open>
  The end-to-end example of the specification: a patient who needs A+ with urgency HIGH,
  and one O- donor, 30 years old, in good health, with availability 0.9 and responsiveness
  0.8, whose last donation is 70 days before \<open>example_now\<close>, 5 km away.
\<close>

definition example_patient :: patient where
  "example_patient =
     \<lparr>p_blood_type_required = ''A+'', p_urgency_level = Some ''HIGH'',
      p_latitude = Some 19, p_longitude = Some 72\<rparr>"

definition example_row :: donor_row where
  "example_row =
     \<lparr>r_donor_id = ''D001'', r_name = ''Asha'', r_blood_type = ''O-'', r_age = 30,
      r_gender = ''F'', r_location = ''Mumbai'', r_availability_status = ''Available'',
      r_health_conditions = ''None'', r_latitude = Some 19, r_longitude = Some 72,
      r_predicted_availability_score = Some (9 / 10), r_responsiveness_score = Some (4 / 5),
      r_last_donation_date = Some (Timestamp 0), r_contact_number = Some ''555''\<rparr>"

definition example_now :: time where
  "example_now = 70 * 86400 * 1000000"

definition example_request :: emergency_request where
  "example_request =
     \<lparr>e_blood_type_needed = ''A+'', e_urgency_level = ''HIGH'',
      e_latitude = Some 19, e_longitude = Some 72, e_location = ''Mumbai''\<rparr>"

definition five_km :: geodesic where
  "five_km p q = Km 5"

definition example_match :: match where
  "example_match =
     \<lparr>m_donor_id = ''D001'', m_donor_name = ''Asha'', m_blood_type = ''O-'',
      m_age = Some 30, m_gender = Some ''F'', m_location = ''Mumbai'', m_distance_km = 5,
      m_matching_score = 33708 / 100, m_predicted_availability = Some (9 / 10),
      m_responsiveness_score = 4 / 5, m_last_donation_date = Some (Timestamp 0),
      m_health_conditions = Some ''None'', m_contact_number = Some ''555'',
      m_urgency_level = Some ''HIGH''\<rparr>"

text \<open>A patient whose blood type is no key of the compatibility table.\<close>

definition unknown_patient :: patient where
  "unknown_patient = example_patient\<lparr>p_blood_type_required := ''Bombay''\<rparr>"

text \<open>
  A service that tracks an alert created at time 0, already notified, and one created 24
  hours later; \<open>an_hour_later\<close> is one hour after the second.
\<close>

definition old_alert :: emergency_alert where
  "old_alert =
     \<lparr>a_alert_id = ''ALERT_000001'', a_request_id = ''REQ1'', a_blood_type_needed = ''A+'',
      a_urgency_level = ''HIGH'', a_location = ''Mumbai'', a_latitude = 19, a_longitude = 72,
      a_units_required = 2, a_hospital_name = ''Unknown'', a_contact_person = ''Unknown'',
      a_contact_number = ''Unknown'', a_timestamp = 0, a_status = ''notified'',
      a_matched_donors = Some [], a_notification_sent = True\<rparr>"

definition fresh_alert :: emergency_alert where
  "fresh_alert = old_alert\<lparr>a_alert_id := ''ALERT_000002'', a_request_id := ''REQ2'',
     a_timestamp := 24 * 3600 * 1000000, a_status := ''active''\<rparr>"

definition two_alerts :: service where
  "two_alerts = (init None)\<lparr>s_active_alerts := [(''REQ1'', old_alert), (''REQ2'', fresh_alert)]\<rparr>"

definition an_hour_later :: time where
  "an_hour_later = 25 * 3600 * 1000000"

section \<open>Evaluation of the examples\<close>

lemmas example_eval =
  calculate_matching_score_def check_blood_compatibility_def dict_get_def
  example_patient_def example_row_def example_now_def blood_compatibility_def
  urgency_weights_def distance_weights_def get_location_proximity_def recency_factor_def
  days_def ticks_per_second_def to_dict_def

lemma example_score:
  "calculate_matching_score example_now example_patient (to_dict example_row) 5 (9 / 10)
     = 3370752 / 10000"
  by (simp add: example_eval)

section \<open>The score and compatibility\<close>

text \<open>
  C1. Whatever the patient, the donor, the distance and the availability, the score of
  \<open>calculate_matching_score\<close> is positive only for a compatible pair; an incompatible pair
  scores exactly 0, and so does every pair whose patient blood type is not a key of the
  compatibility table (the lookup falls back to the empty list). The function is total:
  no branch of it raises.
\<close>

theorem score_positive_only_if_compatible:
  "(0 < calculate_matching_score now patient donor distance predicted_availability
      \<longrightarrow> check_blood_compatibility (p_blood_type_required patient) (d_blood_type donor))
   \<and> (\<not> check_blood_compatibility (p_blood_type_required patient) (d_blood_type donor)
      \<longrightarrow> calculate_matching_score now patient donor distance predicted_availability = 0)
   \<and> (blood_compatibility (p_blood_type_required patient) = None
      \<longrightarrow> \<not> check_blood_compatibility (p_blood_type_required patient) (d_blood_type donor)
          \<and> calculate_matching_score now patient donor distance predicted_availability = 0)"
  by (simp add: calculate_matching_score_def check_blood_compatibility_def dict_get_def)


theorem score_positive_only_if_compatible_witness:
  "0 < calculate_matching_score example_now example_patient (to_dict example_row) 5 (9 / 10)
   \<and> check_blood_compatibility (p_blood_type_required example_patient)
        (d_blood_type (to_dict example_row))
   \<and> blood_compatibility (p_blood_type_required unknown_patient) = None
   \<and> calculate_matching_score example_now unknown_patient (to_dict example_row) 5 (9 / 10) = 0"
proof -
  have pos: "0 < calculate_matching_score example_now example_patient (to_dict example_row) 5 (9 / 10)"
    by (simp add: example_score)
  have unknown: "blood_compatibility (p_blood_type_required unknown_patient) = None"
    by (simp add: unknown_patient_def blood_compatibility_def)
  from pos
    score_positive_only_if_compatible
      [of example_now example_patient "to_dict example_row" 5 "9 / 10"]
  have "check_blood_compatibility (p_blood_type_required example_patient)
          (d_blood_type (to_dict example_row))"
    by blast
  moreover from unknown
    score_positive_only_if_compatible
      [of example_now unknown_patient "to_dict example_row" 5 "9 / 10"]
  have "calculate_matching_score example_now unknown_patient (to_dict example_row) 5 (9 / 10) = 0"
    by blast
  ultimately show ?thesis
    using pos unknown by simp
qed

section \<open>The recency of the last donation\<close>

lemma calculate_matching_score_split:
  "calculate_matching_score now patient donor distance predicted_availability =
     (if \<not> check_blood_compatibility (p_blood_type_required patient) (d_blood_type donor) then 0
      else max 0 (recency_factor now (d_last_donation_date donor)
                    (score_before_recency patient donor distance predicted_availability)))"
  by (simp add: calculate_matching_score_def score_before_recency_def Let_def)

lemma urgency_weight_pos: "0 < dict_get (urgency_weights u) 1"
  by (simp add: urgency_weights_def dict_get_def)

lemma distance_weight_pos: "0 < dict_get (distance_weights (get_location_proximity x)) (1 / 2)"
  by (simp add: distance_weights_def get_location_proximity_def dict_get_def)

lemma score_before_recency_pos:
  assumes "0 \<le> dict_get (d_predicted_availability_score donor) predicted_availability"
    and "0 \<le> dict_get (d_responsiveness_score donor) (1 / 2)"
  shows "0 < score_before_recency patient donor distance predicted_availability"
  unfolding score_before_recency_def Let_def
  using assms urgency_weight_pos distance_weight_pos
  by (intro mult_pos_pos) (auto intro: add_pos_nonneg)

lemma score_before_recency_update:
  "score_before_recency patient (donor\<lparr>d_last_donation_date := x\<rparr>) distance pa
     = score_before_recency patient donor distance pa"
  by (simp add: score_before_recency_def)

text \<open>
  C7. Two donors that differ only in the date of the last donation, 10 days ago for the
  one and 60 days ago for the other, with availability and responsiveness in [0, 1] as the
  data model has them, and a patient compatible with their blood type: the donor of 10
  days ago scores strictly lower. Its score is 0.3 times, the other's 1.2 times the score
  of the same donor without a donation date.
\<close>

theorem recent_donation_scores_lower:
  assumes compat: "check_blood_compatibility (p_blood_type_required patient) (d_blood_type donor)"
    and ten: "days (now - t10) = 10"
    and sixty: "days (now - t60) = 60"
    and avail: "0 \<le> dict_get (d_predicted_availability_score donor) predicted_availability"
               "dict_get (d_predicted_availability_score donor) predicted_availability \<le> 1"
    and resp: "0 \<le> dict_get (d_responsiveness_score donor) (1 / 2)"
              "dict_get (d_responsiveness_score donor) (1 / 2) \<le> 1"
  shows "calculate_matching_score now patient
           (donor\<lparr>d_last_donation_date := Some (Timestamp t10)\<rparr>) distance predicted_availability
         < calculate_matching_score now patient
           (donor\<lparr>d_last_donation_date := Some (Timestamp t60)\<rparr>) distance predicted_availability
       \<and> calculate_matching_score now patient
           (donor\<lparr>d_last_donation_date := Some (Timestamp t10)\<rparr>) distance predicted_availability
         = 3 / 10 * calculate_matching_score now patient
           (donor\<lparr>d_last_donation_date := None\<rparr>) distance predicted_availability
       \<and> calculate_matching_score now patient
           (donor\<lparr>d_last_donation_date := Some (Timestamp t60)\<rparr>) distance predicted_availability
         = 6 / 5 * calculate_matching_score now patient
           (donor\<lparr>d_last_donation_date := None\<rparr>) distance predicted_availability"
proof -
  have "0 < score_before_recency patient donor distance predicted_availability"
    using avail(1) resp(1) by (rule score_before_recency_pos)
  then show ?thesis
    using compat ten sixty
    by (simp add: calculate_matching_score_split score_before_recency_update
          recency_factor_def max_def)
qed

theorem recent_donation_scores_lower_witness:
  "calculate_matching_score example_now example_patient
     ((to_dict example_row)\<lparr>d_last_donation_date := Some (Timestamp (60 * 86400 * 1000000))\<rparr>)
     5 (9 / 10)
   < calculate_matching_score example_now example_patient
     ((to_dict example_row)\<lparr>d_last_donation_date := Some (Timestamp (10 * 86400 * 1000000))\<rparr>)
     5 (9 / 10)"
  using recent_donation_scores_lower
    [where patient = example_patient and donor = "to_dict example_row"
       and now = example_now and ?t10.0 = "60 * 86400 * 1000000"
       and ?t60.0 = "10 * 86400 * 1000000" and predicted_availability = "9 / 10"
       and distance = 5]
  by (simp add: example_eval)

section \<open>The end-to-end example\<close>

lemma patient_of_example_request: "patient_of_request example_request = example_patient"
  by (simp add: patient_of_request_def example_request_def example_patient_def dict_get_def)

lemma match_donor_example:
  "match_donor five_km example_now example_patient 30 example_row = Some example_match"
  by (simp add: match_donor_def five_km_def calculate_distance_def max_distance_def
        example_eval py_round2_def Let_def example_match_def)

lemma available_example_row: "available example_row"
  by (simp add: available_def example_row_def)

lemma find_matches_example:
  "find_matches five_km example_now example_patient [example_row] 20 30 = [example_match]"
  by (simp add: find_matches_def available_example_row match_donor_example
        py_sort_reverse_def py_slice_to_def)

text \<open>
  C3, as the code has it. On the end-to-end example \<open>calculate_matching_score\<close> returns
  the product 100 * 2.0 * 1.0 * 0.95 * 1.2 * 1.12 * 1.1 * 1.2, which is 337.0752 (and
  not about 317.9); \<open>find_emergency_matches\<close> reports the donor with the score 337.08 at
  5 km in \<open>high_priority\<close>, the score being at least 150 and the distance at most 50 km.
\<close>

theorem end_to_end_score:
  "calculate_matching_score example_now example_patient (to_dict example_row) 5 (9 / 10)
     = 100 * 2 * 1 * (95 / 100) * (12 / 10) * (112 / 100) * (11 / 10) * (12 / 10)
   \<and> calculate_matching_score example_now example_patient (to_dict example_row) 5 (9 / 10)
     = 3370752 / 10000
   \<and> rec_high_priority
       (find_emergency_matches five_km example_now example_request [example_row] 20)
     = [example_match]
   \<and> m_matching_score example_match = 33708 / 100
   \<and> 150 \<le> m_matching_score example_match
   \<and> m_distance_km example_match \<le> 50"
  by (simp add: example_score find_emergency_matches_def patient_of_example_request
        find_matches_example Let_def py_slice_to_def example_match_def)

text \<open>
  C3, as the specification has it, fails: the score of the example is more than 19 away
  from 317.9.
\<close>

theorem end_to_end_score_counterexample:
  "\<not> \<bar>calculate_matching_score example_now example_patient (to_dict example_row) 5 (9 / 10)
       - 3179 / 10\<bar> < 19"
  by (simp add: example_score)

section \<open>Cleanup of expired alerts\<close>

lemma foldl_delete_keys:
  "foldl (\<lambda>items request_id. filter (\<lambda>(k, a). k \<noteq> request_id) items) xs rids
     = filter (\<lambda>(k, a). k \<notin> set rids) xs"
proof (induction rids arbitrary: xs)
  case Nil
  then show ?case by simp
next
  case (Cons r rids)
  have "filter (\<lambda>(k, a). k \<notin> set rids) (filter (\<lambda>(k, a). k \<noteq> r) xs)
          = filter (\<lambda>(k, a). k \<notin> set (r # rids)) xs"
    by (induction xs) auto
  with Cons show ?case by simp
qed

lemma cleanup_active:
  "s_active_alerts (cleanup_expired_alerts current_time s) =
     filter (\<lambda>(k, a). k \<notin> set (map fst
                (filter (\<lambda>(request_id, alert).
                           c_alert_expiry_hours (s_config s) * 3600
                             < total_seconds (current_time - a_timestamp alert))
                   (s_active_alerts s))))
       (s_active_alerts s)"
  by (simp add: cleanup_expired_alerts_def Let_def foldl_delete_keys)

lemma cleanup_keeps_no_expired:
  assumes "(request_id, alert) \<in> set (s_active_alerts (cleanup_expired_alerts current_time s))"
  shows "\<not> c_alert_expiry_hours (s_config s) * 3600
            < total_seconds (current_time - a_timestamp alert)"
proof
  assume late: "c_alert_expiry_hours (s_config s) * 3600
                  < total_seconds (current_time - a_timestamp alert)"
  from assms have mem: "(request_id, alert) \<in> set (s_active_alerts s)"
    and out: "request_id \<notin> set (map fst
                (filter (\<lambda>(request_id, alert).
                           c_alert_expiry_hours (s_config s) * 3600
                             < total_seconds (current_time - a_timestamp alert))
                   (s_active_alerts s)))"
    unfolding cleanup_active by simp_all
  from mem late have "(request_id, alert) \<in> set
                (filter (\<lambda>(request_id, alert).
                           c_alert_expiry_hours (s_config s) * 3600
                             < total_seconds (current_time - a_timestamp alert))
                   (s_active_alerts s))"
    by simp
  then have "fst (request_id, alert) \<in> set (map fst
                (filter (\<lambda>(request_id, alert).
                           c_alert_expiry_hours (s_config s) * 3600
                             < total_seconds (current_time - a_timestamp alert))
                   (s_active_alerts s)))"
    unfolding set_map by (rule imageI)
  with out show False by simp
qed

text \<open>
  C9. After \<open>cleanup_expired_alerts\<close> no alert whose age, the time of the cleanup minus its
  creation timestamp, exceeds the configured number of hours is left in the active set,
  whatever its status; nothing is added to the active set, and the alert history and the
  configuration are as before.
\<close>

theorem cleanup_removes_expired:
  "(\<forall>(request_id, alert) \<in> set (s_active_alerts (cleanup_expired_alerts current_time s)).
      \<not> c_alert_expiry_hours (s_config s) * 3600
          < total_seconds (current_time - a_timestamp alert))
   \<and> set (s_active_alerts (cleanup_expired_alerts current_time s)) \<subseteq> set (s_active_alerts s)
   \<and> s_alert_history (cleanup_expired_alerts current_time s) = s_alert_history s
   \<and> s_config (cleanup_expired_alerts current_time s) = s_config s"
proof (intro conjI)
  show "\<forall>(request_id, alert) \<in> set (s_active_alerts (cleanup_expired_alerts current_time s)).
      \<not> c_alert_expiry_hours (s_config s) * 3600
          < total_seconds (current_time - a_timestamp alert)"
    using cleanup_keeps_no_expired by blast
  show "set (s_active_alerts (cleanup_expired_alerts current_time s)) \<subseteq> set (s_active_alerts s)"
    unfolding cleanup_active by (rule filter_is_subset)
  show "s_alert_history (cleanup_expired_alerts current_time s) = s_alert_history s"
    by (simp add: cleanup_expired_alerts_def Let_def)
  show "s_config (cleanup_expired_alerts current_time s) = s_config s"
    by (simp add: cleanup_expired_alerts_def Let_def)
qed


lemma two_alerts_ttl: "c_alert_expiry_hours (s_config two_alerts) * 3600 = 86400"
  by (simp add: two_alerts_def init_def get_default_config_def dict_get_def)

lemma old_alert_late: "86400 < total_seconds (an_hour_later - a_timestamp old_alert)"
  by (simp add: an_hour_later_def old_alert_def total_seconds_def ticks_per_second_def)

lemma fresh_alert_in_time: "\<not> 86400 < total_seconds (an_hour_later - a_timestamp fresh_alert)"
  by (simp add: an_hour_later_def fresh_alert_def total_seconds_def ticks_per_second_def)

lemma two_alerts_active:
  "s_active_alerts two_alerts = [(''REQ1'', old_alert), (''REQ2'', fresh_alert)]"
  by (simp add: two_alerts_def)

lemma two_alerts_cleanup:
  "s_active_alerts (cleanup_expired_alerts an_hour_later two_alerts) = [(''REQ2'', fresh_alert)]"
  by (simp add: cleanup_expired_alerts_def Let_def two_alerts_ttl two_alerts_active
        old_alert_late fresh_alert_in_time)

theorem cleanup_removes_expired_witness:
  "(''REQ2'', fresh_alert) \<in> set (s_active_alerts (cleanup_expired_alerts an_hour_later two_alerts))
   \<and> \<not> c_alert_expiry_hours (s_config two_alerts) * 3600
          < total_seconds (an_hour_later - a_timestamp fresh_alert)
   \<and> a_status old_alert = ''notified''
   \<and> (''REQ1'', old_alert) \<in> set (s_active_alerts two_alerts)
   \<and> s_active_alerts (cleanup_expired_alerts an_hour_later two_alerts) = [(''REQ2'', fresh_alert)]"
proof -
  have mem: "(''REQ2'', fresh_alert)
               \<in> set (s_active_alerts (cleanup_expired_alerts an_hour_later two_alerts))"
    by (simp add: two_alerts_cleanup)
  with cleanup_removes_expired [of an_hour_later two_alerts]
  have "\<not> c_alert_expiry_hours (s_config two_alerts) * 3600
            < total_seconds (an_hour_later - a_timestamp fresh_alert)"
    by blast
  with mem show ?thesis
    by (simp add: two_alerts_cleanup two_alerts_active old_alert_def)
qed

end
